theory Spec2Isabelle
  imports Main "HOL-Library.Char_ord" "HOL-Library.List_Lexorder"
begin

section \<open>The node server of the Cinder CSI plugin (pkg/csi/cinder/nodeserver.go)\<close>

text \<open>
  Go strings are byte sequences, modelled as \<^typ>\<open>string\<close>. A function of the source that
  returns \<open>(value, error)\<close> returns a sum here (\<open>Inl\<close> the failure), and a run-time panic
  (slicing a string beyond its length) is a failure of its own.
\<close>

subsection \<open>Errors\<close>

text \<open>The status codes of google.golang.org/grpc/codes.\<close>

datatype code =
  OK | Canceled | Unknown | InvalidArgument | DeadlineExceeded | NotFound | AlreadyExists
  | PermissionDenied | ResourceExhausted | FailedPrecondition | Aborted | OutOfRange
  | Unimplemented | Internal | Unavailable | DataLoss | Unauthenticated

text \<open>
  A Go \<open>error\<close> value is either built in this file by \<open>status.Error(code, msg)\<close>, or comes
  from a collaborator (the mount package, the operating system). Of the second kind this file
  only ever reads the text of \<open>err.Error()\<close>, so such an error is represented by that text.
\<close>

datatype error = Status code string | Foreign string

datatype failure = Error error | Panic

type_synonym 'a result = "failure + 'a"

subsection \<open>Library functions used by the device lookup\<close>

text \<open>
  \<open>s[:n]\<close>: the first \<open>n\<close> bytes of \<open>s\<close>; it panics when \<open>s\<close> is shorter than \<open>n\<close>.
\<close>

definition slice_to :: "string \<Rightarrow> nat \<Rightarrow> string result" where
  "slice_to s n = (if n \<le> length s then Inr (take n s) else Inl Panic)"

text \<open>
  \<open>strings.Replace(s, old, new, n)\<close> for a non-empty \<open>old\<close>: the first \<open>n\<close> non-overlapping
  occurrences of \<open>old\<close>, from the left, are replaced by \<open>new\<close>; a negative \<open>n\<close> sets no limit.
  (For an empty \<open>old\<close> Go inserts \<open>new\<close> at every rune boundary; the source never does
  that, and this model returns \<open>s\<close> there.)
\<close>

function Replace :: "string \<Rightarrow> string \<Rightarrow> string \<Rightarrow> int \<Rightarrow> string" where
  "Replace s old new n =
     (if n = 0 \<or> old = [] \<or> s = [] then s
      else if take (length old) s = old
        then new @ Replace (drop (length old) s) old new (n - 1)
        else hd s # Replace (tl s) old new n)"
  by pat_completeness auto
termination
  by (relation "measure (\<lambda>(s, old, new, n). length s)") auto

declare Replace.simps [simp del]

text \<open>\<open>strings.Split(s, sep)\<close> for a one-byte separator.\<close>

fun Split :: "string \<Rightarrow> char \<Rightarrow> string list" where
  "Split [] sep = [[]]"
| "Split (c # cs) sep =
     (if c = sep then [] # Split cs sep
      else (case Split cs sep of [] \<Rightarrow> [[c]] | x # xs \<Rightarrow> (c # x) # xs))"

text \<open>\<open>strings.Join(elems, sep)\<close>.\<close>

fun strings_Join :: "string list \<Rightarrow> string \<Rightarrow> string" where
  "strings_Join [] sep = []"
| "strings_Join [x] sep = x"
| "strings_Join (x # y # ys) sep = x @ sep @ strings_Join (y # ys) sep"

text \<open>
  \<open>path.Clean(p)\<close>, by path elements: empty elements and \<open>.\<close> are dropped, \<open>..\<close> removes
  the element before it, is dropped at the root, and is kept at the front of a relative path;
  the empty result is \<open>.\<close>.
\<close>

definition Clean_step :: "bool \<Rightarrow> string list \<Rightarrow> string \<Rightarrow> string list" where
  "Clean_step rooted out e =
     (if e = [] \<or> e = ''.'' then out
      else if e = ''..'' then
        (if out \<noteq> [] \<and> last out \<noteq> ''..'' then butlast out
         else if rooted then out
         else out @ [e])
      else out @ [e])"

definition Clean :: "string \<Rightarrow> string" where
  "Clean p =
     (if p = [] then ''.''
      else
        let rooted = (hd p = CHR ''/'');
            out = foldl (Clean_step rooted) [] (Split p CHR ''/'');
            r = (if rooted then ''/'' else []) @ strings_Join out ''/''
        in if r = [] then ''.'' else r)"

text \<open>
  \<open>path.Join(elem...)\<close>: the non-empty elements, joined by slashes and cleaned; the empty
  string when there is none.
\<close>

definition Join :: "string list \<Rightarrow> string" where
  "Join elem =
     (let es = filter (\<lambda>e. e \<noteq> []) elem
      in if es = [] then [] else Clean (strings_Join es ''/''))"

subsection \<open>getDevicePathBySerialID\<close>

text \<open>
  \<open>ioutil.ReadDir(dirname)\<close> answers with the names of the entries of the directory,
  sorted by name, or with an error and no list at all. It is the parameter \<open>readDir\<close> of
  the model.
\<close>

type_synonym readdir = "string \<Rightarrow> error + string list"

text \<open>The list of candidate device names (lines 43 to 50).\<close>

definition candidateDeviceNodes :: "string \<Rightarrow> string list result" where
  "candidateDeviceNodes volumeID =
     (case slice_to volumeID 20 of
        Inl p \<Rightarrow> Inl p
      | Inr kvm \<Rightarrow>
          (case slice_to volumeID 20 of
             Inl p \<Rightarrow> Inl p
           | Inr scsi \<Rightarrow>
               Inr [''virtio-'' @ kvm,
                    ''scsi-0QEMU_QEMU_HARDDISK_'' @ scsi,
                    ''wwn-0x'' @ Replace volumeID ''-'' [] (- 1)]))"

text \<open>
  The inner loop (lines 55 to 60): the candidates are compared with the name \<open>f\<close> of one
  directory entry, and the first that equals it ends the whole function with the path of
  the entry.
\<close>

fun match_candidates :: "string \<Rightarrow> string list \<Rightarrow> string option" where
  "match_candidates f [] = None"
| "match_candidates f (c # cs) =
     (if c = f then Some (Join [''/dev/disk/by-id/'', f]) else match_candidates f cs)"

text \<open>The outer loop (lines 54 to 61), over the directory entries in the order listed.\<close>

fun match_files :: "string list \<Rightarrow> string list \<Rightarrow> string option" where
  "match_files [] cands = None"
| "match_files (f # fs) cands =
     (case match_candidates f cands of
        Some p \<Rightarrow> Some p
      | None \<Rightarrow> match_files fs cands)"

definition getDevicePathBySerialID :: "readdir \<Rightarrow> string \<Rightarrow> string result" where
  "getDevicePathBySerialID readDir volumeID =
     (case candidateDeviceNodes volumeID of
        Inl p \<Rightarrow> Inl p
      | Inr cands \<Rightarrow>
          let files = (case readDir ''/dev/disk/by-id/'' of Inl _ \<Rightarrow> [] | Inr fs \<Rightarrow> fs)
          in (case match_files files cands of
                Some p \<Rightarrow> Inr p
              | None \<Rightarrow> Inl (Error (Status Internal ''Failed to find device by volume ID''))))"

subsection \<open>The mount provider\<close>

text \<open>
  The interface \<open>mount.IMount\<close> is implemented outside this file. Its methods act on the
  host, whose state is a value of the type \<open>'w\<close>: each method takes the state and returns its
  answer with the new state. A Go answer \<open>(v, err)\<close> is the pair of \<open>v\<close> and the text of the
  error, \<open>None\<close> for \<open>nil\<close>.
\<close>

record 'w IMount =
  ScanForAttach :: "string \<Rightarrow> 'w \<Rightarrow> string option \<times> 'w"
  IsLikelyNotMountPointAttach :: "string \<Rightarrow> 'w \<Rightarrow> (bool \<times> string option) \<times> 'w"
  FormatAndMount :: "string \<Rightarrow> string \<Rightarrow> string \<Rightarrow> string list \<Rightarrow> 'w \<Rightarrow> string option \<times> 'w"
  IsLikelyNotMountPointDetach :: "string \<Rightarrow> 'w \<Rightarrow> (bool \<times> string option) \<times> 'w"
  UnmountPath :: "string \<Rightarrow> 'w \<Rightarrow> string option \<times> 'w"
  GetInstanceID :: "'w \<Rightarrow> (string \<times> string option) \<times> 'w"

text \<open>
  What a node server runs in: the directory listing of the host, the answer of
  \<open>mount.GetMountProvider()\<close>, and the embedded \<open>csicommon.DefaultNodeServer\<close>, whose two
  methods used here answer with a response or an error.
\<close>

text \<open>Both identity responses are built with the field \<open>NodeId\<close> alone.\<close>

datatype NodeGetIdResponse = NodeGetIdResponse string
datatype NodeGetInfoResponse = NodeGetInfoResponse string

record 'w env =
  ReadDir :: readdir
  GetMountProvider :: "string + 'w IMount"
  DefaultNodeGetId :: "'w \<Rightarrow> (error + NodeGetIdResponse) \<times> 'w"
  DefaultNodeGetInfo :: "'w \<Rightarrow> (error + NodeGetInfoResponse) \<times> 'w"

text \<open>
  To count the operations a call performs, the state carries, next to the host, the list of
  the provider methods invoked so far, each with its arguments and its answer.
\<close>

datatype event =
  Called_ScanForAttach string "string option"
  | Called_IsLikelyNotMountPointAttach string bool "string option"
  | Called_FormatAndMount string string string "string list" "string option"
  | Called_IsLikelyNotMountPointDetach string bool "string option"
  | Called_UnmountPath string "string option"
  | Called_GetInstanceID string "string option"

record 'w state =
  world :: 'w
  calls :: "event list"

definition invoke :: "('w \<Rightarrow> 'a \<times> 'w) \<Rightarrow> ('a \<Rightarrow> event) \<Rightarrow> 'w state \<Rightarrow> 'a \<times> 'w state" where
  "invoke method ev s =
     (case method (world s) of
        (r, w') \<Rightarrow> (r, \<lparr>world = w', calls = calls s @ [ev r]\<rparr>))"

fun is_FormatAndMount :: "event \<Rightarrow> bool" where
  "is_FormatAndMount (Called_FormatAndMount source target fstype options r) = True"
| "is_FormatAndMount _ = False"

fun is_UnmountPath :: "event \<Rightarrow> bool" where
  "is_UnmountPath (Called_UnmountPath mountPath r) = True"
| "is_UnmountPath _ = False"

subsection \<open>Requests and responses\<close>

text \<open>
  The fields of the CSI messages that this file reads, with the nil-safe getters of the
  generated code: a getter on an absent message answers with the zero value.
\<close>

record MountVolume =
  FsType :: string
  MountFlags :: "string list"

datatype AccessType = Block | Mount "MountVolume option"

record VolumeCapability =
  AccessType :: "AccessType option"

record NodePublishVolumeRequest =
  VolumeId :: string
  TargetPath :: string
  VolumeCapability :: "VolumeCapability option"
  Readonly :: bool

record NodeUnpublishVolumeRequest =
  UnpublishVolumeId :: string
  UnpublishTargetPath :: string

datatype NodePublishVolumeResponse = NodePublishVolumeResponse
datatype NodeUnpublishVolumeResponse = NodeUnpublishVolumeResponse
datatype NodeStageVolumeResponse = NodeStageVolumeResponse
datatype NodeUnstageVolumeResponse = NodeUnstageVolumeResponse

definition GetMount :: "VolumeCapability option \<Rightarrow> MountVolume option" where
  "GetMount vc =
     (case vc of
        None \<Rightarrow> None
      | Some c \<Rightarrow> (case AccessType c of Some (Mount m) \<Rightarrow> m | _ \<Rightarrow> None))"

definition GetFsType :: "MountVolume option \<Rightarrow> string" where
  "GetFsType m = (case m of None \<Rightarrow> [] | Some v \<Rightarrow> FsType v)"

definition GetMountFlags :: "MountVolume option \<Rightarrow> string list" where
  "GetMountFlags m = (case m of None \<Rightarrow> [] | Some v \<Rightarrow> MountFlags v)"

subsection \<open>NodePublishVolume and NodeUnpublishVolume\<close>

definition NodePublishVolume ::
  "'w env \<Rightarrow> NodePublishVolumeRequest \<Rightarrow> 'w state \<Rightarrow> NodePublishVolumeResponse result \<times> 'w state"
where
  "NodePublishVolume env req s =
     (let targetPath = TargetPath req;
          fsType = GetFsType (GetMount (VolumeCapability req));
          volumeID = VolumeId req
      in case getDevicePathBySerialID (ReadDir env) volumeID of
           Inl err \<Rightarrow> (Inl err, s)
         | Inr devicePath \<Rightarrow>
        (case GetMountProvider env of
           Inl err \<Rightarrow> (Inl (Error (Foreign err)), s)
         | Inr m \<Rightarrow>
        (case invoke (ScanForAttach m devicePath) (Called_ScanForAttach devicePath) s of
           (Some err, s1) \<Rightarrow> (Inl (Error (Foreign err)), s1)
         | (None, s1) \<Rightarrow>
        (case invoke (IsLikelyNotMountPointAttach m targetPath)
                (\<lambda>(b, e). Called_IsLikelyNotMountPointAttach targetPath b e) s1 of
           ((notMnt, Some err), s2) \<Rightarrow> (Inl (Error (Status Internal err)), s2)
         | ((notMnt, None), s2) \<Rightarrow>
             if notMnt then
               (let options = (if Readonly req then [''ro''] else [''rw'']);
                    mountFlags = GetMountFlags (GetMount (VolumeCapability req));
                    options = options @ mountFlags
                in case invoke (FormatAndMount m devicePath targetPath fsType options)
                          (Called_FormatAndMount devicePath targetPath fsType options) s2 of
                     (Some err, s3) \<Rightarrow> (Inl (Error (Status Internal err)), s3)
                   | (None, s3) \<Rightarrow> (Inr NodePublishVolumeResponse, s3))
             else (Inr NodePublishVolumeResponse, s2)))))"

definition NodeUnpublishVolume ::
  "'w env \<Rightarrow> NodeUnpublishVolumeRequest \<Rightarrow> 'w state \<Rightarrow> NodeUnpublishVolumeResponse result \<times> 'w state"
where
  "NodeUnpublishVolume env req s =
     (let targetPath = UnpublishTargetPath req
      in case GetMountProvider env of
           Inl err \<Rightarrow> (Inl (Error (Foreign err)), s)
         | Inr m \<Rightarrow>
        (case invoke (IsLikelyNotMountPointDetach m targetPath)
                (\<lambda>(b, e). Called_IsLikelyNotMountPointDetach targetPath b e) s of
           ((notMnt, Some err), s1) \<Rightarrow> (Inl (Error (Status Internal err)), s1)
         | ((notMnt, None), s1) \<Rightarrow>
             if notMnt then (Inl (Error (Status NotFound ''Volume not mounted'')), s1)
             else
               (case invoke (UnmountPath m (UnpublishTargetPath req))
                       (Called_UnmountPath (UnpublishTargetPath req)) s1 of
                  (Some err, s2) \<Rightarrow> (Inl (Error (Status Internal err)), s2)
                | (None, s2) \<Rightarrow> (Inr NodeUnpublishVolumeResponse, s2))))"

definition NodeUnstageVolume :: "'w state \<Rightarrow> NodeUnstageVolumeResponse result \<times> 'w state" where
  "NodeUnstageVolume s = (Inr NodeUnstageVolumeResponse, s)"

definition NodeStageVolume :: "'w state \<Rightarrow> NodeStageVolumeResponse result \<times> 'w state" where
  "NodeStageVolume s = (Inr NodeStageVolumeResponse, s)"

subsection \<open>The node identifier\<close>

definition getNodeID :: "'w env \<Rightarrow> 'w state \<Rightarrow> string result \<times> 'w state" where
  "getNodeID env s =
     (case GetMountProvider env of
        Inl err \<Rightarrow> (Inl (Error (Foreign err)), s)
      | Inr m \<Rightarrow>
          (case invoke (GetInstanceID m) (\<lambda>(i, e). Called_GetInstanceID i e) s of
             ((nodeID, Some err), s1) \<Rightarrow> (Inl (Error (Foreign err)), s1)
           | ((nodeID, None), s1) \<Rightarrow> (Inr nodeID, s1)))"

text \<open>
  The default responder is a method of the embedded \<open>csicommon.DefaultNodeServer\<close>; what it
  answers is returned as it is.
\<close>

definition default_responder :: "('w \<Rightarrow> (error + 'r) \<times> 'w) \<Rightarrow> 'w state \<Rightarrow> 'r result \<times> 'w state" where
  "default_responder method s =
     (case method (world s) of
        (Inl err, w') \<Rightarrow> (Inl (Error err), s\<lparr>world := w'\<rparr>)
      | (Inr response, w') \<Rightarrow> (Inr response, s\<lparr>world := w'\<rparr>))"

definition NodeGetId :: "'w env \<Rightarrow> 'w state \<Rightarrow> NodeGetIdResponse result \<times> 'w state" where
  "NodeGetId env s =
     (case getNodeID env s of
        (Inl err, s1) \<Rightarrow> (Inl err, s1)
      | (Inr nodeID, s1) \<Rightarrow>
          if length nodeID > 0 then (Inr (NodeGetIdResponse nodeID), s1)
          else default_responder (DefaultNodeGetId env) s1)"

definition NodeGetInfo :: "'w env \<Rightarrow> 'w state \<Rightarrow> NodeGetInfoResponse result \<times> 'w state" where
  "NodeGetInfo env s =
     (case getNodeID env s of
        (Inl err, s1) \<Rightarrow> (Inl err, s1)
      | (Inr nodeID, s1) \<Rightarrow>
          if length nodeID > 0 then (Inr (NodeGetInfoResponse nodeID), s1)
          else default_responder (DefaultNodeGetInfo env) s1)"


subsection \<open>Directories, hosts and requests for the examples\<close>

text \<open>
  A directory that holds the given names, and one that cannot be listed. As
  \<open>ioutil.ReadDir\<close> does, the listing gives the names sorted: strings are compared byte
  by byte, which is the lexicographic order of \<^typ>\<open>string\<close>.
\<close>

definition listed :: "string list \<Rightarrow> readdir" where
  "listed files dirname = Inr (sort files)"

definition unlistable :: "error \<Rightarrow> readdir" where
  "unlistable err dirname = Inl err"

text \<open>The provider methods invoked between the state \<open>s\<close> and the later state \<open>s'\<close>.\<close>

definition performed :: "'w state \<Rightarrow> 'w state \<Rightarrow> event list" where
  "performed s s' = drop (length (calls s)) (calls s')"

text \<open>
  A simple provider: the host is the list of the mounted target paths, no mount operation
  fails, and the instance-ID lookup gives a fixed answer.
\<close>

definition fake_mount :: "string \<times> string option \<Rightarrow> string list IMount" where
  "fake_mount instanceID =
     \<lparr>ScanForAttach = (\<lambda>devicePath w. (None, w)),
      IsLikelyNotMountPointAttach = (\<lambda>targetpath w. ((targetpath \<notin> set w, None), w)),
      FormatAndMount = (\<lambda>source target fstype options w. (None, target # w)),
      IsLikelyNotMountPointDetach = (\<lambda>targetpath w. ((targetpath \<notin> set w, None), w)),
      UnmountPath = (\<lambda>mountPath w. (None, removeAll mountPath w)),
      GetInstanceID = (\<lambda>w. (instanceID, w))\<rparr>"

definition fake_env :: "string list \<Rightarrow> string + string list IMount \<Rightarrow> string list env" where
  "fake_env files provider =
     \<lparr>ReadDir = listed files,
      GetMountProvider = provider,
      DefaultNodeGetId = (\<lambda>w. (Inr (NodeGetIdResponse ''default-node''), w)),
      DefaultNodeGetInfo = (\<lambda>w. (Inr (NodeGetInfoResponse ''default-node''), w))\<rparr>"

definition publish_request :: "bool \<Rightarrow> NodePublishVolumeRequest" where
  "publish_request ro =
     \<lparr>VolumeId = ''6e5c6b8a-3f1d-4c2a-9b7e-0123456789ab'',
      TargetPath = ''/var/lib/kubelet/pods/p/volumes/v/mount'',
      VolumeCapability =
        Some \<lparr>AccessType =
          Some (Mount (Some \<lparr>FsType = ''ext4'', MountFlags = [''noatime'', ''discard'']\<rparr>))\<rparr>,
      Readonly = ro\<rparr>"

definition unpublish_request :: NodeUnpublishVolumeRequest where
  "unpublish_request =
     \<lparr>UnpublishVolumeId = ''6e5c6b8a-3f1d-4c2a-9b7e-0123456789ab'',
      UnpublishTargetPath = ''/var/lib/kubelet/pods/p/volumes/v/mount''\<rparr>"

section \<open>Properties\<close>

subsection \<open>Library facts\<close>

lemma Split_no_sep: "sep \<notin> set s \<Longrightarrow> Split s sep = [s]"
  by (induction s) auto

lemma Replace_hyphen: "n < 0 \<Longrightarrow> Replace s ''-'' [] n = filter (\<lambda>c. c \<noteq> CHR ''-'') s"
proof (induction s arbitrary: n)
  case Nil
  show ?case by (simp add: Replace.simps)
next
  case (Cons c cs)
  from Cons.prems have "n - 1 < 0" by simp
  with Cons show ?case
    by (subst Replace.simps) simp
qed

text \<open>The path of a directory entry: a name without a slash is appended to the directory.\<close>

lemma Join_by_id:
  assumes "CHR ''/'' \<notin> set f" and "f \<noteq> []" and "f \<noteq> ''.''" and "f \<noteq> ''..''"
  shows "Join [''/dev/disk/by-id/'', f] = ''/dev/disk/by-id/'' @ f"
  using assms by (simp add: Join_def Clean_def Split_no_sep Clean_step_def)

subsection \<open>The device lookup\<close>

lemma candidateDeviceNodes_long:
  "20 \<le> length volumeID \<Longrightarrow>
   candidateDeviceNodes volumeID =
     Inr [''virtio-'' @ take 20 volumeID,
          ''scsi-0QEMU_QEMU_HARDDISK_'' @ take 20 volumeID,
          ''wwn-0x'' @ filter (\<lambda>c. c \<noteq> CHR ''-'') volumeID]"
  by (simp add: candidateDeviceNodes_def slice_to_def Replace_hyphen)

lemma candidateDeviceNodes_short: "length volumeID < 20 \<Longrightarrow> candidateDeviceNodes volumeID = Inl Panic"
  by (simp add: candidateDeviceNodes_def slice_to_def)

lemma match_candidates_Some:
  "match_candidates f cands =
     (if f \<in> set cands then Some (Join [''/dev/disk/by-id/'', f]) else None)"
  by (induction cands) auto

lemma match_files_find:
  "match_files files cands =
     map_option (\<lambda>f. Join [''/dev/disk/by-id/'', f]) (find (\<lambda>f. f \<in> set cands) files)"
  by (induction files) (auto simp: match_candidates_Some)

text \<open>
  Claim C1, as the code has it. The outer loop runs over the directory entries and the inner
  one over the candidates, so the entry that wins is the first one of the listing that equals
  any of the three candidates: for a volume identifier of at least 20 bytes and a listing of
  which \<open>f\<close> is the first entry equal to a candidate, the lookup returns the path of \<open>f\<close>. The
  order of the listing decides, not the order of the candidates.
\<close>

theorem getDevicePathBySerialID_first_listed_entry:
  assumes "20 \<le> length volumeID"
    and "rd ''/dev/disk/by-id/'' = Inr files"
    and "find (\<lambda>f. f \<in> {''virtio-'' @ take 20 volumeID,
           ''scsi-0QEMU_QEMU_HARDDISK_'' @ take 20 volumeID,
           ''wwn-0x'' @ filter (\<lambda>c. c \<noteq> CHR ''-'') volumeID}) files = Some f"
  shows "getDevicePathBySerialID rd volumeID = Inr (Join [''/dev/disk/by-id/'', f])"
  using assms
  by (simp add: getDevicePathBySerialID_def candidateDeviceNodes_long match_files_find)

theorem getDevicePathBySerialID_first_listed_entry_witness:
  "getDevicePathBySerialID
     (listed [''ata-QEMU_DVD-ROM_QM00003'', ''scsi-0QEMU_QEMU_HARDDISK_6e5c6b8a-3f1d-4c2a-9'',
         ''virtio-6e5c6b8a-3f1d-4c2a-9'', ''wwn-0x6e5c6b8a3f1d4c2a9b7e0123456789ab''])
     ''6e5c6b8a-3f1d-4c2a-9b7e-0123456789ab''
   = Inr ''/dev/disk/by-id/scsi-0QEMU_QEMU_HARDDISK_6e5c6b8a-3f1d-4c2a-9''"
proof -
  have len: "20 \<le> length ''6e5c6b8a-3f1d-4c2a-9b7e-0123456789ab''" by simp
  have ls: "listed [''ata-QEMU_DVD-ROM_QM00003'', ''scsi-0QEMU_QEMU_HARDDISK_6e5c6b8a-3f1d-4c2a-9'',
         ''virtio-6e5c6b8a-3f1d-4c2a-9'', ''wwn-0x6e5c6b8a3f1d4c2a9b7e0123456789ab''] ''/dev/disk/by-id/''
            = Inr [''ata-QEMU_DVD-ROM_QM00003'', ''scsi-0QEMU_QEMU_HARDDISK_6e5c6b8a-3f1d-4c2a-9'',
         ''virtio-6e5c6b8a-3f1d-4c2a-9'', ''wwn-0x6e5c6b8a3f1d4c2a9b7e0123456789ab'']"
    by code_simp
  have first: "find (\<lambda>f. f \<in> {''virtio-'' @ take 20 ''6e5c6b8a-3f1d-4c2a-9b7e-0123456789ab'',
           ''scsi-0QEMU_QEMU_HARDDISK_'' @ take 20 ''6e5c6b8a-3f1d-4c2a-9b7e-0123456789ab'',
           ''wwn-0x'' @ filter (\<lambda>c. c \<noteq> CHR ''-'') ''6e5c6b8a-3f1d-4c2a-9b7e-0123456789ab''})
        [''ata-QEMU_DVD-ROM_QM00003'', ''scsi-0QEMU_QEMU_HARDDISK_6e5c6b8a-3f1d-4c2a-9'',
         ''virtio-6e5c6b8a-3f1d-4c2a-9'', ''wwn-0x6e5c6b8a3f1d4c2a9b7e0123456789ab'']
      = Some ''scsi-0QEMU_QEMU_HARDDISK_6e5c6b8a-3f1d-4c2a-9''"
    by simp
  have path: "Join [''/dev/disk/by-id/'', ''scsi-0QEMU_QEMU_HARDDISK_6e5c6b8a-3f1d-4c2a-9'']
                = ''/dev/disk/by-id/scsi-0QEMU_QEMU_HARDDISK_6e5c6b8a-3f1d-4c2a-9''"
    by code_simp
  show ?thesis
    using getDevicePathBySerialID_first_listed_entry
            [where rd = "listed [''ata-QEMU_DVD-ROM_QM00003'', ''scsi-0QEMU_QEMU_HARDDISK_6e5c6b8a-3f1d-4c2a-9'',
         ''virtio-6e5c6b8a-3f1d-4c2a-9'', ''wwn-0x6e5c6b8a3f1d4c2a9b7e0123456789ab'']",
             OF len ls first]
    by (simp only: path)
qed

text \<open>
  The priority of the candidates does not decide: in a listing in name order, as
  \<open>ioutil.ReadDir\<close> gives it, the virtio-scsi entry comes before the virtio entry, and the
  lookup returns the virtio-scsi path although the virtio candidate matches an entry too.
\<close>

theorem getDevicePathBySerialID_candidate_priority_counterexample:
  "getDevicePathBySerialID (listed [''scsi-0QEMU_QEMU_HARDDISK_6e5c6b8a-3f1d-4c2a-9'', ''virtio-6e5c6b8a-3f1d-4c2a-9'']) ''6e5c6b8a-3f1d-4c2a-9b7e-0123456789ab''
     = Inr ''/dev/disk/by-id/scsi-0QEMU_QEMU_HARDDISK_6e5c6b8a-3f1d-4c2a-9''
 \<and> getDevicePathBySerialID (listed [''scsi-0QEMU_QEMU_HARDDISK_6e5c6b8a-3f1d-4c2a-9'', ''virtio-6e5c6b8a-3f1d-4c2a-9'']) ''6e5c6b8a-3f1d-4c2a-9b7e-0123456789ab''
     \<noteq> Inr ''/dev/disk/by-id/virtio-6e5c6b8a-3f1d-4c2a-9''"
  by code_simp

text \<open>
  Claim C2, as the code has it. For a volume identifier of at least 20 bytes and a listing
  none of whose entries equals a candidate, the lookup fails with the status code Internal
  and the message "Failed to find device by volume ID".
\<close>

theorem getDevicePathBySerialID_no_match:
  assumes "20 \<le> length volumeID"
    and "rd ''/dev/disk/by-id/'' = Inr files"
    and "\<forall>f \<in> set files. f \<notin> {''virtio-'' @ take 20 volumeID,
           ''scsi-0QEMU_QEMU_HARDDISK_'' @ take 20 volumeID,
           ''wwn-0x'' @ filter (\<lambda>c. c \<noteq> CHR ''-'') volumeID}"
  shows "getDevicePathBySerialID rd volumeID =
           Inl (Error (Status Internal ''Failed to find device by volume ID''))"
proof -
  from assms(3) have "find (\<lambda>f. f \<in> {''virtio-'' @ take 20 volumeID,
           ''scsi-0QEMU_QEMU_HARDDISK_'' @ take 20 volumeID,
           ''wwn-0x'' @ filter (\<lambda>c. c \<noteq> CHR ''-'') volumeID}) files = None"
    by (simp add: find_None_iff)
  with assms(1,2) show ?thesis
    by (simp add: getDevicePathBySerialID_def candidateDeviceNodes_long match_files_find)
qed

theorem getDevicePathBySerialID_no_match_witness:
  "getDevicePathBySerialID (listed [''ata-QEMU_DVD-ROM_QM00003'', ''virtio-00000000-0000-0000-0'']) ''6e5c6b8a-3f1d-4c2a-9b7e-0123456789ab''
     = Inl (Error (Status Internal ''Failed to find device by volume ID''))"
proof -
  have len: "20 \<le> length ''6e5c6b8a-3f1d-4c2a-9b7e-0123456789ab''" by simp
  have ls: "listed [''ata-QEMU_DVD-ROM_QM00003'', ''virtio-00000000-0000-0000-0''] ''/dev/disk/by-id/''
            = Inr [''ata-QEMU_DVD-ROM_QM00003'', ''virtio-00000000-0000-0000-0'']"
    by code_simp
  have none: "\<forall>f \<in> set [''ata-QEMU_DVD-ROM_QM00003'', ''virtio-00000000-0000-0000-0'']. f \<notin> {''virtio-'' @ take 20 ''6e5c6b8a-3f1d-4c2a-9b7e-0123456789ab'',
           ''scsi-0QEMU_QEMU_HARDDISK_'' @ take 20 ''6e5c6b8a-3f1d-4c2a-9b7e-0123456789ab'',
           ''wwn-0x'' @ filter (\<lambda>c. c \<noteq> CHR ''-'') ''6e5c6b8a-3f1d-4c2a-9b7e-0123456789ab''}"
    by simp
  show ?thesis
    by (rule getDevicePathBySerialID_no_match
          [where rd = "listed [''ata-QEMU_DVD-ROM_QM00003'', ''virtio-00000000-0000-0000-0'']", OF len ls none])
qed

text \<open>In an empty directory the failure has the code Internal, not NotFound.\<close>

theorem getDevicePathBySerialID_NotFound_counterexample:
  "getDevicePathBySerialID (listed []) ''6e5c6b8a-3f1d-4c2a-9b7e-0123456789ab''
     = Inl (Error (Status Internal ''Failed to find device by volume ID''))
 \<and> getDevicePathBySerialID (listed []) ''6e5c6b8a-3f1d-4c2a-9b7e-0123456789ab''
     \<noteq> Inl (Error (Status NotFound ''Failed to find device by volume ID''))"
  by code_simp

text \<open>
  Claim C6. For a volume identifier of at least 20 bytes the candidate names are exactly
  three: \<open>virtio-\<close> and \<open>scsi-0QEMU_QEMU_HARDDISK_\<close>, each followed by the first 20 bytes of
  the identifier, and \<open>wwn-0x\<close> followed by the identifier without its hyphens.
\<close>

theorem candidateDeviceNodes_three_names:
  "20 \<le> length volumeID \<Longrightarrow>
   candidateDeviceNodes volumeID =
     Inr [''virtio-'' @ take 20 volumeID,
          ''scsi-0QEMU_QEMU_HARDDISK_'' @ take 20 volumeID,
          ''wwn-0x'' @ filter (\<lambda>c. c \<noteq> CHR ''-'') volumeID]"
  by (simp add: candidateDeviceNodes_def slice_to_def Replace_hyphen)

theorem candidateDeviceNodes_three_names_witness:
  "candidateDeviceNodes ''6e5c6b8a-3f1d-4c2a-9b7e-0123456789ab'' = Inr [''virtio-6e5c6b8a-3f1d-4c2a-9'', ''scsi-0QEMU_QEMU_HARDDISK_6e5c6b8a-3f1d-4c2a-9'', ''wwn-0x6e5c6b8a3f1d4c2a9b7e0123456789ab'']"
proof -
  have len: "20 \<le> length ''6e5c6b8a-3f1d-4c2a-9b7e-0123456789ab''" by simp
  show ?thesis using candidateDeviceNodes_three_names [OF len] by simp
qed

text \<open>
  Claim C7. When the directory cannot be listed, the lookup for a volume identifier of at
  least 20 bytes gives what it gives for an empty directory: the failure of a lookup without
  a match. The error of the listing is not returned.
\<close>

theorem getDevicePathBySerialID_unlistable:
  assumes "20 \<le> length volumeID"
    and "rd ''/dev/disk/by-id/'' = Inl err"
  shows "getDevicePathBySerialID rd volumeID = getDevicePathBySerialID (listed []) volumeID
       \<and> getDevicePathBySerialID rd volumeID =
           Inl (Error (Status Internal ''Failed to find device by volume ID''))"
  using assms
  by (simp add: getDevicePathBySerialID_def candidateDeviceNodes_long listed_def)

theorem getDevicePathBySerialID_unlistable_witness:
  "getDevicePathBySerialID (unlistable (Foreign ''open /dev/disk/by-id/: permission denied'')) ''6e5c6b8a-3f1d-4c2a-9b7e-0123456789ab''
   = getDevicePathBySerialID (listed []) ''6e5c6b8a-3f1d-4c2a-9b7e-0123456789ab''
 \<and> getDevicePathBySerialID (unlistable (Foreign ''open /dev/disk/by-id/: permission denied'')) ''6e5c6b8a-3f1d-4c2a-9b7e-0123456789ab''
   = Inl (Error (Status Internal ''Failed to find device by volume ID''))"
proof -
  have len: "20 \<le> length ''6e5c6b8a-3f1d-4c2a-9b7e-0123456789ab''" by simp
  have ls: "unlistable (Foreign ''open /dev/disk/by-id/: permission denied'') ''/dev/disk/by-id/''
              = Inl (Foreign ''open /dev/disk/by-id/: permission denied'')"
    by (simp add: unlistable_def)
  show ?thesis
    by (rule getDevicePathBySerialID_unlistable
          [where rd = "unlistable (Foreign ''open /dev/disk/by-id/: permission denied'')",
           OF len ls])
qed

text \<open>
  Claim C10. Two distinct volume identifiers of at least 20 bytes with the same first 20
  bytes have the same virtio and virtio-scsi candidates, and in a directory that holds
  nothing but virtio or virtio-scsi entries of the one, the lookup gives the same path for
  both: the lookup is not injective.
\<close>

theorem getDevicePathBySerialID_not_injective:
  assumes "a \<noteq> b" and "20 \<le> length a" and "20 \<le> length b" and "take 20 a = take 20 b"
    and "rd ''/dev/disk/by-id/'' = Inr files" and "files \<noteq> []"
    and "set files \<subseteq> {''virtio-'' @ take 20 a, ''scsi-0QEMU_QEMU_HARDDISK_'' @ take 20 a}"
  shows "candidateDeviceNodes a =
           Inr [''virtio-'' @ take 20 a, ''scsi-0QEMU_QEMU_HARDDISK_'' @ take 20 a,
                ''wwn-0x'' @ filter (\<lambda>c. c \<noteq> CHR ''-'') a]
       \<and> candidateDeviceNodes b =
           Inr [''virtio-'' @ take 20 a, ''scsi-0QEMU_QEMU_HARDDISK_'' @ take 20 a,
                ''wwn-0x'' @ filter (\<lambda>c. c \<noteq> CHR ''-'') b]
       \<and> getDevicePathBySerialID rd a = Inr (Join [''/dev/disk/by-id/'', hd files])
       \<and> getDevicePathBySerialID rd b = Inr (Join [''/dev/disk/by-id/'', hd files])"
proof (intro conjI)
  show "candidateDeviceNodes a =
           Inr [''virtio-'' @ take 20 a, ''scsi-0QEMU_QEMU_HARDDISK_'' @ take 20 a,
                ''wwn-0x'' @ filter (\<lambda>c. c \<noteq> CHR ''-'') a]"
    using assms(2) by (rule candidateDeviceNodes_long)
  show "candidateDeviceNodes b =
           Inr [''virtio-'' @ take 20 a, ''scsi-0QEMU_QEMU_HARDDISK_'' @ take 20 a,
                ''wwn-0x'' @ filter (\<lambda>c. c \<noteq> CHR ''-'') b]"
    using assms(3) by (simp add: candidateDeviceNodes_long assms(4))
next
  from assms(6) obtain f fs where fs: "files = f # fs" by (cases files) auto
  with assms(7)
  have f: "f = ''virtio-'' @ take 20 a \<or> f = ''scsi-0QEMU_QEMU_HARDDISK_'' @ take 20 a"
    by auto
  from assms(5) fs f assms(2)
  show "getDevicePathBySerialID rd a = Inr (Join [''/dev/disk/by-id/'', hd files])"
    by (auto simp: getDevicePathBySerialID_def candidateDeviceNodes_long match_candidates_Some)
  from assms(5) fs f assms(3)
  show "getDevicePathBySerialID rd b = Inr (Join [''/dev/disk/by-id/'', hd files])"
    by (auto simp: getDevicePathBySerialID_def candidateDeviceNodes_long match_candidates_Some
                   assms(4)[symmetric])
qed

theorem getDevicePathBySerialID_not_injective_witness:
  "''6e5c6b8a-3f1d-4c2a-9b7e-0123456789ab'' \<noteq> ''6e5c6b8a-3f1d-4c2a-9fff-ffffffffffff''
 \<and> getDevicePathBySerialID (listed [''virtio-6e5c6b8a-3f1d-4c2a-9'']) ''6e5c6b8a-3f1d-4c2a-9b7e-0123456789ab'' = Inr ''/dev/disk/by-id/virtio-6e5c6b8a-3f1d-4c2a-9''
 \<and> getDevicePathBySerialID (listed [''virtio-6e5c6b8a-3f1d-4c2a-9'']) ''6e5c6b8a-3f1d-4c2a-9fff-ffffffffffff'' = Inr ''/dev/disk/by-id/virtio-6e5c6b8a-3f1d-4c2a-9''"
proof -
  have ne: "''6e5c6b8a-3f1d-4c2a-9b7e-0123456789ab'' \<noteq> ''6e5c6b8a-3f1d-4c2a-9fff-ffffffffffff''" by simp
  have la: "20 \<le> length ''6e5c6b8a-3f1d-4c2a-9b7e-0123456789ab''" by simp
  have lb: "20 \<le> length ''6e5c6b8a-3f1d-4c2a-9fff-ffffffffffff''" by simp
  have tk: "take 20 ''6e5c6b8a-3f1d-4c2a-9b7e-0123456789ab'' = take 20 ''6e5c6b8a-3f1d-4c2a-9fff-ffffffffffff''" by simp
  have ls: "listed [''virtio-6e5c6b8a-3f1d-4c2a-9''] ''/dev/disk/by-id/'' = Inr [''virtio-6e5c6b8a-3f1d-4c2a-9'']" by code_simp
  have nn: "[''virtio-6e5c6b8a-3f1d-4c2a-9''] \<noteq> []" by simp
  have sub: "set [''virtio-6e5c6b8a-3f1d-4c2a-9''] \<subseteq> {''virtio-'' @ take 20 ''6e5c6b8a-3f1d-4c2a-9b7e-0123456789ab'', ''scsi-0QEMU_QEMU_HARDDISK_'' @ take 20 ''6e5c6b8a-3f1d-4c2a-9b7e-0123456789ab''}"
    by simp
  have path: "Join [''/dev/disk/by-id/'', hd [''virtio-6e5c6b8a-3f1d-4c2a-9'']] = ''/dev/disk/by-id/virtio-6e5c6b8a-3f1d-4c2a-9''"
    by code_simp
  show ?thesis
    using getDevicePathBySerialID_not_injective
            [where rd = "listed [''virtio-6e5c6b8a-3f1d-4c2a-9'']", OF ne la lb tk ls nn sub] ne
    by (simp only: path simp_thms)
qed

subsection \<open>Publishing and unpublishing\<close>

text \<open>
  Claim C3. When, in a call of NodePublishVolume, the attach variant of the mount-state check
  answers false without an error for the target path (the path is a mount point already),
  the call returns success and invokes no format-and-mount operation of the provider.
\<close>

theorem NodePublishVolume_already_mounted:
  assumes "NodePublishVolume env req s = (r, s')"
    and "Called_IsLikelyNotMountPointAttach (TargetPath req) False None \<in> set (performed s s')"
  shows "r = Inr NodePublishVolumeResponse \<and> filter is_FormatAndMount (performed s s') = []"
  using assms
  by (auto simp: NodePublishVolume_def invoke_def performed_def Let_def
           split: sum.splits prod.splits option.splits if_splits)

theorem NodePublishVolume_already_mounted_witness:
  "NodePublishVolume (fake_env [''virtio-6e5c6b8a-3f1d-4c2a-9''] (Inr (fake_mount (''i-1'', None)))) (publish_request False)
     \<lparr>world = [''/var/lib/kubelet/pods/p/volumes/v/mount''], calls = []\<rparr>
   = (Inr NodePublishVolumeResponse,
      \<lparr>world = [''/var/lib/kubelet/pods/p/volumes/v/mount''],
       calls = [Called_ScanForAttach ''/dev/disk/by-id/virtio-6e5c6b8a-3f1d-4c2a-9'' None,
                Called_IsLikelyNotMountPointAttach ''/var/lib/kubelet/pods/p/volumes/v/mount'' False None]\<rparr>)
 \<and> filter is_FormatAndMount
      [Called_ScanForAttach ''/dev/disk/by-id/virtio-6e5c6b8a-3f1d-4c2a-9'' None,
       Called_IsLikelyNotMountPointAttach ''/var/lib/kubelet/pods/p/volumes/v/mount'' False None] = []"
proof -
  have run:
    "NodePublishVolume (fake_env [''virtio-6e5c6b8a-3f1d-4c2a-9''] (Inr (fake_mount (''i-1'', None)))) (publish_request False)
       \<lparr>world = [''/var/lib/kubelet/pods/p/volumes/v/mount''], calls = []\<rparr>
     = (Inr NodePublishVolumeResponse,
        \<lparr>world = [''/var/lib/kubelet/pods/p/volumes/v/mount''],
         calls = [Called_ScanForAttach ''/dev/disk/by-id/virtio-6e5c6b8a-3f1d-4c2a-9'' None,
                  Called_IsLikelyNotMountPointAttach ''/var/lib/kubelet/pods/p/volumes/v/mount'' False None]\<rparr>)"
    by code_simp
  have ev:
    "Called_IsLikelyNotMountPointAttach (TargetPath (publish_request False)) False None
       \<in> set (performed \<lparr>world = [''/var/lib/kubelet/pods/p/volumes/v/mount''], calls = []\<rparr>
                \<lparr>world = [''/var/lib/kubelet/pods/p/volumes/v/mount''],
                 calls = [Called_ScanForAttach ''/dev/disk/by-id/virtio-6e5c6b8a-3f1d-4c2a-9'' None,
                          Called_IsLikelyNotMountPointAttach ''/var/lib/kubelet/pods/p/volumes/v/mount'' False None]\<rparr>)"
    by (simp add: performed_def publish_request_def)
  show ?thesis
    using NodePublishVolume_already_mounted [OF run ev] run by (simp add: performed_def)
qed

text \<open>
  Claim C4, as the code has it. When, in a call of NodeUnpublishVolume, the detach variant of
  the mount-state check answers true without an error for the target path (the path is not a
  mount point), the call fails with the status code NotFound and the message
  "Volume not mounted", and invokes no unmount operation of the provider.
\<close>

theorem NodeUnpublishVolume_not_mounted:
  assumes "NodeUnpublishVolume env req s = (r, s')"
    and "Called_IsLikelyNotMountPointDetach (UnpublishTargetPath req) True None
           \<in> set (performed s s')"
  shows "r = Inl (Error (Status NotFound ''Volume not mounted''))
       \<and> filter is_UnmountPath (performed s s') = []"
  using assms
  by (auto simp: NodeUnpublishVolume_def invoke_def performed_def Let_def
           split: sum.splits prod.splits option.splits if_splits)

theorem NodeUnpublishVolume_not_mounted_witness:
  "NodeUnpublishVolume (fake_env [] (Inr (fake_mount (''i-1'', None)))) unpublish_request
     \<lparr>world = [''/mnt/other''], calls = []\<rparr>
   = (Inl (Error (Status NotFound ''Volume not mounted'')),
      \<lparr>world = [''/mnt/other''],
       calls = [Called_IsLikelyNotMountPointDetach ''/var/lib/kubelet/pods/p/volumes/v/mount'' True None]\<rparr>)
 \<and> filter is_UnmountPath [Called_IsLikelyNotMountPointDetach ''/var/lib/kubelet/pods/p/volumes/v/mount'' True None] = []"
proof -
  have run:
    "NodeUnpublishVolume (fake_env [] (Inr (fake_mount (''i-1'', None)))) unpublish_request
       \<lparr>world = [''/mnt/other''], calls = []\<rparr>
     = (Inl (Error (Status NotFound ''Volume not mounted'')),
        \<lparr>world = [''/mnt/other''],
         calls = [Called_IsLikelyNotMountPointDetach ''/var/lib/kubelet/pods/p/volumes/v/mount'' True None]\<rparr>)"
    by code_simp
  have ev:
    "Called_IsLikelyNotMountPointDetach (UnpublishTargetPath unpublish_request) True None
       \<in> set (performed \<lparr>world = [''/mnt/other''], calls = []\<rparr>
                \<lparr>world = [''/mnt/other''],
                 calls = [Called_IsLikelyNotMountPointDetach ''/var/lib/kubelet/pods/p/volumes/v/mount'' True None]\<rparr>)"
    by (simp add: performed_def unpublish_request_def)
  show ?thesis
    using NodeUnpublishVolume_not_mounted [OF run ev] run by (simp add: performed_def)
qed

text \<open>
  The message of the failure begins with a capital letter: on a host where nothing is
  mounted, the call does not fail with the message "volume not mounted".
\<close>

theorem NodeUnpublishVolume_message_counterexample:
  "fst (NodeUnpublishVolume (fake_env [] (Inr (fake_mount (''i-1'', None)))) unpublish_request
          \<lparr>world = [], calls = []\<rparr>)
     = Inl (Error (Status NotFound ''Volume not mounted''))
 \<and> fst (NodeUnpublishVolume (fake_env [] (Inr (fake_mount (''i-1'', None)))) unpublish_request
          \<lparr>world = [], calls = []\<rparr>)
     \<noteq> Inl (Error (Status NotFound ''volume not mounted''))"
  by code_simp



subsection \<open>The node identifier\<close>

text \<open>
  Claim C8. In NodeGetId: when the provider cannot be acquired, or its instance-ID lookup
  fails, that error is returned as it is, not wrapped in a status; when the lookup gives a
  non-empty string, the response carries exactly that string; when it gives the empty string,
  the answer is that of the default responder.
\<close>

theorem NodeGetId_cases:
  "(GetMountProvider env = Inl err \<longrightarrow> NodeGetId env s = (Inl (Error (Foreign err)), s))
 \<and> (GetMountProvider env = Inr m \<and> GetInstanceID m (world s) = ((nodeID, Some err), w') \<longrightarrow>
      fst (NodeGetId env s) = Inl (Error (Foreign err)))
 \<and> (GetMountProvider env = Inr m \<and> GetInstanceID m (world s) = ((nodeID, None), w')
      \<and> nodeID \<noteq> [] \<longrightarrow>
      fst (NodeGetId env s) = Inr (NodeGetIdResponse nodeID))
 \<and> (GetMountProvider env = Inr m \<and> GetInstanceID m (world s) = (([], None), w') \<longrightarrow>
      NodeGetId env s =
        default_responder (DefaultNodeGetId env)
          \<lparr>world = w', calls = calls s @ [Called_GetInstanceID [] None]\<rparr>)"
  by (auto simp: NodeGetId_def getNodeID_def invoke_def
           split: sum.splits prod.splits option.splits)

theorem NodeGetId_cases_witness:
  "NodeGetId (fake_env [] (Inl ''no mount provider'')) \<lparr>world = [], calls = []\<rparr>
     = (Inl (Error (Foreign ''no mount provider'')), \<lparr>world = [], calls = []\<rparr>)
 \<and> fst (NodeGetId (fake_env [] (Inr (fake_mount ([], Some ''metadata unreachable''))))
          \<lparr>world = [], calls = []\<rparr>)
     = Inl (Error (Foreign ''metadata unreachable''))
 \<and> fst (NodeGetId (fake_env [] (Inr (fake_mount (''i-1'', None)))) \<lparr>world = [], calls = []\<rparr>)
     = Inr (NodeGetIdResponse ''i-1'')
 \<and> NodeGetId (fake_env [] (Inr (fake_mount ([], None)))) \<lparr>world = [], calls = []\<rparr>
     = (Inr (NodeGetIdResponse ''default-node''),
        \<lparr>world = [], calls = [Called_GetInstanceID [] None]\<rparr>)"
proof -
  have prov: "GetMountProvider (fake_env [] p) = p" for p
    by (simp add: fake_env_def)
  have look: "GetInstanceID (fake_mount i) [] = (i, [])" for i
    by (simp add: fake_mount_def)
  have dflt: "default_responder (DefaultNodeGetId (fake_env [] p))
                \<lparr>world = [], calls = [Called_GetInstanceID [] None]\<rparr>
              = (Inr (NodeGetIdResponse ''default-node''),
                 \<lparr>world = [], calls = [Called_GetInstanceID [] None]\<rparr>)" for p
    by (simp add: default_responder_def fake_env_def)
  have a: "NodeGetId (fake_env [] (Inl ''no mount provider'')) \<lparr>world = [], calls = []\<rparr>
             = (Inl (Error (Foreign ''no mount provider'')), \<lparr>world = [], calls = []\<rparr>)"
    using NodeGetId_cases
            [of "fake_env [] (Inl ''no mount provider'')" "''no mount provider''"
                "\<lparr>world = [], calls = []\<rparr>"]
    by (simp add: prov)
  have b: "fst (NodeGetId (fake_env [] (Inr (fake_mount ([], Some ''metadata unreachable''))))
                  \<lparr>world = [], calls = []\<rparr>)
             = Inl (Error (Foreign ''metadata unreachable''))"
    using NodeGetId_cases
            [of "fake_env [] (Inr (fake_mount ([], Some ''metadata unreachable'')))"
                "''metadata unreachable''" "\<lparr>world = [], calls = []\<rparr>"
                "fake_mount ([], Some ''metadata unreachable'')" "[]" "[]"]
    by (simp add: prov look)
  have c: "fst (NodeGetId (fake_env [] (Inr (fake_mount (''i-1'', None))))
                  \<lparr>world = [], calls = []\<rparr>)
             = Inr (NodeGetIdResponse ''i-1'')"
    using NodeGetId_cases
            [of "fake_env [] (Inr (fake_mount (''i-1'', None)))" "[]"
                "\<lparr>world = [], calls = []\<rparr>" "fake_mount (''i-1'', None)" "''i-1''" "[]"]
    by (simp add: prov look)
  have d: "NodeGetId (fake_env [] (Inr (fake_mount ([], None)))) \<lparr>world = [], calls = []\<rparr>
             = (Inr (NodeGetIdResponse ''default-node''),
                \<lparr>world = [], calls = [Called_GetInstanceID [] None]\<rparr>)"
    using NodeGetId_cases
            [of "fake_env [] (Inr (fake_mount ([], None)))" "[]"
                "\<lparr>world = [], calls = []\<rparr>" "fake_mount ([], None)" "[]" "[]"]
    by (simp add: prov look dflt)
  from a b c d show ?thesis by simp
qed

text \<open>
  Claim C9. NodeGetId and NodeGetInfo, run in the same environment and state, agree on the
  node identifier: either both return the same failure, or both return the same non-empty
  identifier, or both hand over to the default responder, and in each case they leave the
  same state.
\<close>

theorem NodeGetId_NodeGetInfo_agree:
  "(\<exists>err s1. getNodeID env s = (Inl err, s1) \<and>
       NodeGetId env s = (Inl err, s1) \<and> NodeGetInfo env s = (Inl err, s1))
 \<or> (\<exists>nodeID s1. getNodeID env s = (Inr nodeID, s1) \<and> nodeID \<noteq> [] \<and>
       NodeGetId env s = (Inr (NodeGetIdResponse nodeID), s1) \<and>
       NodeGetInfo env s = (Inr (NodeGetInfoResponse nodeID), s1))
 \<or> (\<exists>s1. getNodeID env s = (Inr [], s1) \<and>
       NodeGetId env s = default_responder (DefaultNodeGetId env) s1 \<and>
       NodeGetInfo env s = default_responder (DefaultNodeGetInfo env) s1)"
proof (cases "getNodeID env s")
  case (Pair r s1)
  show ?thesis
  proof (cases r)
    case (Inl err)
    with Pair show ?thesis by (simp add: NodeGetId_def NodeGetInfo_def)
  next
    case (Inr nodeID)
    with Pair show ?thesis
      by (cases "nodeID = []") (simp_all add: NodeGetId_def NodeGetInfo_def)
  qed
qed

theorem NodeGetId_NodeGetInfo_agree_witness:
  "NodeGetId (fake_env [] (Inr (fake_mount (''i-1'', None)))) \<lparr>world = [], calls = []\<rparr>
     = (Inr (NodeGetIdResponse ''i-1''), \<lparr>world = [], calls = [Called_GetInstanceID ''i-1'' None]\<rparr>)
 \<and> NodeGetInfo (fake_env [] (Inr (fake_mount (''i-1'', None)))) \<lparr>world = [], calls = []\<rparr>
     = (Inr (NodeGetInfoResponse ''i-1''), \<lparr>world = [], calls = [Called_GetInstanceID ''i-1'' None]\<rparr>)"
proof -
  have g: "getNodeID (fake_env [] (Inr (fake_mount (''i-1'', None)))) \<lparr>world = [], calls = []\<rparr>
             = (Inr ''i-1'', \<lparr>world = [], calls = [Called_GetInstanceID ''i-1'' None]\<rparr>)"
    by (simp add: getNodeID_def fake_env_def fake_mount_def invoke_def)
  show ?thesis
    using NodeGetId_NodeGetInfo_agree
            [of "fake_env [] (Inr (fake_mount (''i-1'', None)))" "\<lparr>world = [], calls = []\<rparr>"]
    by (auto simp: g)
qed

end
